theory Spec2Isabelle
  imports Main
begin

section \<open>Python values, errors and the world the client runs in\<close>

text \<open>
  The client in \<^verbatim>\<open>lalasClase.py\<close> is sequential glue around the file system, the
  process environment, the wall clock, standard output and one HTTP server. Each of
  these is a field of the record \<open>world\<close>; every operation of the source takes the
  world and returns its result (or the exception it raises, as \<open>Inl\<close>) with the world
  it leaves behind.

  A Python \<open>str\<close> is a \<open>string\<close> whose characters are the code points U+0000 to
  U+00FF; a file holds text. Values decoded from JSON or YAML are \<open>pyval\<close>; a
  \<open>dict\<close> is an association list in insertion order, read by key with \<open>map_of\<close>.
  Floating point numbers are outside the model.
\<close>

datatype pyval =
    PNone
  | PBool bool
  | PInt int
  | PStr string
  | PList "pyval list"
  | PDict "(string \<times> pyval) list"

datatype os_error = ENOENT | EEXIST | ENOTDIR | EISDIR

datatype type_error =
    NotAMapping
  | UnexpectedKeyword string
  | MissingArguments "string list"
  | NotAPath

datatype py_error =
    ValueError string
  | FileNotFoundError string
  | Exception string
  | TypeError type_error
  | OSError os_error string
  | AttributeError
  | JSONDecodeError
  | YAMLError
  | RequestException

datatype node = File string | Dir

record datetime =
  year :: nat
  month :: nat
  day :: nat
  hour :: nat
  minute :: nat
  second :: nat

datatype http_method = GET | POST

record request =
  meth :: http_method
  url :: string
  req_headers :: "(string \<times> string) list"
  params :: "(string \<times> string) list"
  json_payload :: "pyval option"

text \<open>
  A response of the \<^verbatim>\<open>requests\<close> library: \<open>status_code\<close>, the body (\<^verbatim>\<open>response.text\<close>, here \<open>resp_text\<close>), and
  what \<^verbatim>\<open>response.json()\<close> returns (\<open>None\<close> when the body is not JSON).
\<close>

record http_response =
  status_code :: int
  resp_text :: string
  json :: "pyval option"

datatype reply = Response http_response | Unreachable

record world =
  environ :: "string \<rightharpoonup> string"
  fs :: "string \<rightharpoonup> node"
  clock :: "nat \<Rightarrow> datetime"
  reads :: nat
  server :: "request \<Rightarrow> reply"
  sent :: "request list"
  stdout :: "string list"
  dotenv_values :: "(string \<rightharpoonup> string) \<Rightarrow> string \<Rightarrow> (string \<rightharpoonup> string)"
  yaml_safe_load :: "string \<Rightarrow> pyval option"

type_synonym 'a io = "world \<Rightarrow> (py_error + 'a) \<times> world"

subsection \<open>Text of numbers\<close>

definition digit_char :: "nat \<Rightarrow> char" where
  "digit_char d = char_of (48 + d)"

fun str_nat :: "nat \<Rightarrow> string" where
  "str_nat n = (if n < 10 then [digit_char n] else str_nat (n div 10) @ [digit_char (n mod 10)])"

declare str_nat.simps [simp del]

definition str_int :: "int \<Rightarrow> string" where
  "str_int i = (if i < 0 then CHR ''-'' # str_nat (nat (- i)) else str_nat (nat i))"

definition hex_char :: "nat \<Rightarrow> char" where
  "hex_char d = (if d < 10 then char_of (48 + d) else char_of (87 + d))"

definition hex2 :: "nat \<Rightarrow> string" where
  "hex2 n = [hex_char (n div 16 mod 16), hex_char (n mod 16)]"

definition pad2 :: "nat \<Rightarrow> string" where
  "pad2 n = (if n < 10 then CHR ''0'' # str_nat n else str_nat n)"

definition pad4 :: "nat \<Rightarrow> string" where
  "pad4 n = replicate (4 - length (str_nat n)) CHR ''0'' @ str_nat n"

subsection \<open>\<^verbatim>\<open>str()\<close> and \<^verbatim>\<open>repr()\<close>\<close>

definition printable :: "char \<Rightarrow> bool" where
  "printable c = (let n = (of_char c :: nat) in
     (32 \<le> n \<and> n < 127) \<or> (161 \<le> n \<and> n \<noteq> 173))"

definition repr_char :: "char \<Rightarrow> char \<Rightarrow> string" where
  "repr_char quote c =
     (if c = quote \<or> c = CHR 0x5C then [CHR 0x5C, c]
      else if c = CHR 0x09 then [CHR 0x5C, CHR ''t'']
      else if c = CHR 0x0A then [CHR 0x5C, CHR ''n'']
      else if c = CHR 0x0D then [CHR 0x5C, CHR ''r'']
      else if printable c then [c]
      else [CHR 0x5C, CHR ''x''] @ hex2 (of_char c))"

definition repr_str :: "string \<Rightarrow> string" where
  "repr_str s =
     (let quote = (if CHR 0x27 \<in> set s \<and> CHR 0x22 \<notin> set s then CHR 0x22 else CHR 0x27)
      in [quote] @ concat (map (repr_char quote) s) @ [quote])"

fun join_with :: "string \<Rightarrow> string list \<Rightarrow> string" where
  "join_with sep [] = []"
| "join_with sep [x] = x"
| "join_with sep (x # y # ys) = x @ sep @ join_with sep (y # ys)"

fun py_repr :: "pyval \<Rightarrow> string" where
  "py_repr PNone = ''None''"
| "py_repr (PBool b) = (if b then ''True'' else ''False'')"
| "py_repr (PInt i) = str_int i"
| "py_repr (PStr s) = repr_str s"
| "py_repr (PList xs) = ''['' @ join_with '', '' (map py_repr xs) @ '']''"
| "py_repr (PDict kvs) =
     ''{'' @ join_with '', '' (map (\<lambda>(k, v). repr_str k @ '': '' @ py_repr v) kvs) @ ''}''"

definition py_str :: "pyval \<Rightarrow> string" where
  "py_str v = (case v of PStr s \<Rightarrow> s | _ \<Rightarrow> py_repr v)"

definition is_space :: "char \<Rightarrow> bool" where
  "is_space c = (let n = (of_char c :: nat) in
     (9 \<le> n \<and> n \<le> 13) \<or> (28 \<le> n \<and> n \<le> 32) \<or> n = 133 \<or> n = 160)"

definition py_strip :: "string \<Rightarrow> string" where
  "py_strip s = rev (dropWhile is_space (rev (dropWhile is_space s)))"

subsection \<open>Paths and the file system\<close>

text \<open>
  The file system maps a path, as it is spelled, to the file or directory it names.
  \<open>os_path_join\<close> and \<open>os_path_dirname\<close> follow \<^verbatim>\<open>posixpath\<close>.
\<close>

definition rstrip_slash :: "string \<Rightarrow> string" where
  "rstrip_slash p = rev (dropWhile (\<lambda>c. c = CHR ''/'') (rev p))"

definition norm_dir :: "string \<Rightarrow> string" where
  "norm_dir p = (if p \<noteq> [] \<and> rstrip_slash p = [] then ''/'' else rstrip_slash p)"

definition os_path_join :: "string \<Rightarrow> string \<Rightarrow> string" where
  "os_path_join a b =
     (if take 1 b = ''/'' then b
      else if a = [] \<or> last a = CHR ''/'' then a @ b
      else a @ ''/'' @ b)"

definition os_path_dirname :: "string \<Rightarrow> string" where
  "os_path_dirname p =
     (let head = rev (dropWhile (\<lambda>c. c \<noteq> CHR ''/'') (rev p))
      in if rstrip_slash head \<noteq> [] then rstrip_slash head else head)"

text \<open>
  The directories \<^verbatim>\<open>os.makedirs(name)\<close> walks through: every prefix of the name
  that ends before a separator, then the name itself.
\<close>

definition dir_chain :: "string \<Rightarrow> string list" where
  "dir_chain p =
     (let np = norm_dir p
      in filter (\<lambda>q. q \<noteq> [])
           (map (\<lambda>i. rstrip_slash (take i np))
              (filter (\<lambda>i. np ! i = CHR ''/'') [0..<length np])) @ [np])"

fun mkdir_chain :: "string list \<Rightarrow> (string \<rightharpoonup> node) \<Rightarrow> os_error + (string \<rightharpoonup> node)" where
  "mkdir_chain [] f = Inr f"
| "mkdir_chain (d # ds) f =
     (case f d of
        Some Dir \<Rightarrow> mkdir_chain ds f
      | Some (File c) \<Rightarrow> Inl (if ds = [] then EEXIST else ENOTDIR)
      | None \<Rightarrow> mkdir_chain ds (f(d \<mapsto> Dir)))"

text \<open>\<^verbatim>\<open>os.makedirs(name, exist_ok=True)\<close>.\<close>

definition makedirs :: "string \<Rightarrow> (string \<rightharpoonup> node) \<Rightarrow> os_error + (string \<rightharpoonup> node)" where
  "makedirs name f = (if name = [] then Inl ENOENT else mkdir_chain (dir_chain name) f)"

definition is_file :: "(string \<rightharpoonup> node) \<Rightarrow> string \<Rightarrow> bool" where
  "is_file f p = (case f p of Some (File c) \<Rightarrow> True | _ \<Rightarrow> False)"

definition dir_ok :: "(string \<rightharpoonup> node) \<Rightarrow> string \<Rightarrow> bool" where
  "dir_ok f d = (d = [] \<or> d = ''/'' \<or> f d = Some Dir)"

text \<open>\<^verbatim>\<open>open(p, 'r').read()\<close>: the text of the file, or the error of the system call.\<close>

definition open_read :: "(string \<rightharpoonup> node) \<Rightarrow> string \<Rightarrow> os_error + string" where
  "open_read f p =
     (case f p of
        Some (File c) \<Rightarrow> Inr c
      | Some Dir \<Rightarrow> Inl EISDIR
      | None \<Rightarrow> if list_ex (is_file f) (butlast (dir_chain p)) then Inl ENOTDIR else Inl ENOENT)"

text \<open>
  \<^verbatim>\<open>open(p, 'w')\<close>: the file is created or truncated; the directory it lies in must
  exist.
\<close>

definition open_write :: "(string \<rightharpoonup> node) \<Rightarrow> string \<Rightarrow> os_error + (string \<rightharpoonup> node)" where
  "open_write f p =
     (let parent = norm_dir (os_path_dirname p)
      in if p = [] then Inl ENOENT
         else if f p = Some Dir then Inl EISDIR
         else if is_file f parent then Inl ENOTDIR
         else if \<not> dir_ok f parent then Inl ENOENT
         else Inr (f(p \<mapsto> File [])))"

definition file_write :: "string \<Rightarrow> string \<Rightarrow> world \<Rightarrow> world" where
  "file_write p content w = w\<lparr>fs := (fs w)(p \<mapsto> File content)\<rparr>"

subsection \<open>Clock, standard output, network\<close>

definition datetime_now :: "world \<Rightarrow> datetime \<times> world" where
  "datetime_now w = (clock w (reads w), w\<lparr>reads := Suc (reads w)\<rparr>)"

text \<open>\<^verbatim>\<open>strftime('%Y%m%d_%H%M%S')\<close> and \<^verbatim>\<open>strftime('%Y-%m-%d %H:%M:%S')\<close>.\<close>

definition strftime_compact :: "datetime \<Rightarrow> string" where
  "strftime_compact t =
     pad4 (year t) @ pad2 (month t) @ pad2 (day t) @ ''_'' @
     pad2 (hour t) @ pad2 (minute t) @ pad2 (second t)"

definition strftime_display :: "datetime \<Rightarrow> string" where
  "strftime_display t =
     pad4 (year t) @ ''-'' @ pad2 (month t) @ ''-'' @ pad2 (day t) @ '' '' @
     pad2 (hour t) @ '':'' @ pad2 (minute t) @ '':'' @ pad2 (second t)"

definition py_print :: "string \<Rightarrow> world \<Rightarrow> world" where
  "py_print s w = w\<lparr>stdout := stdout w @ [s]\<rparr>"

text \<open>
  \<^verbatim>\<open>requests.get\<close> and \<^verbatim>\<open>requests.post\<close>: the request goes out (it is appended to
  \<open>sent\<close>) and the server's reply comes back, or the transport fails.
\<close>

definition requests_send :: "request \<Rightarrow> http_response io" where
  "requests_send rq w =
     (let w' = w\<lparr>sent := sent w @ [rq]\<rparr>
      in case server w rq of
           Response r \<Rightarrow> (Inr r, w')
         | Unreachable \<Rightarrow> (Inl RequestException, w'))"

subsection \<open>\<^verbatim>\<open>json.dump(obj, f, indent=2)\<close>\<close>

definition json_escape_char :: "char \<Rightarrow> string" where
  "json_escape_char c =
     (if c = CHR 0x22 then [CHR 0x5C, CHR 0x22]
      else if c = CHR 0x5C then [CHR 0x5C, CHR 0x5C]
      else if c = CHR 0x0A then [CHR 0x5C, CHR ''n'']
      else if c = CHR 0x0D then [CHR 0x5C, CHR ''r'']
      else if c = CHR 0x09 then [CHR 0x5C, CHR ''t'']
      else if c = CHR 0x08 then [CHR 0x5C, CHR ''b'']
      else if c = CHR 0x0C then [CHR 0x5C, CHR ''f'']
      else if 32 \<le> (of_char c :: nat) \<and> (of_char c :: nat) \<le> 126 then [c]
      else [CHR 0x5C, CHR ''u'', CHR ''0'', CHR ''0''] @ hex2 (of_char c))"

definition json_quote :: "string \<Rightarrow> string" where
  "json_quote s = [CHR 0x22] @ concat (map json_escape_char s) @ [CHR 0x22]"

definition newline_indent :: "nat \<Rightarrow> string" where
  "newline_indent lvl = CHR 0x0A # replicate (2 * lvl) CHR '' ''"

fun json_encode :: "nat \<Rightarrow> pyval \<Rightarrow> string" where
  "json_encode lvl PNone = ''null''"
| "json_encode lvl (PBool b) = (if b then ''true'' else ''false'')"
| "json_encode lvl (PInt i) = str_int i"
| "json_encode lvl (PStr s) = json_quote s"
| "json_encode lvl (PList xs) =
     (if xs = [] then ''[]''
      else ''['' @ newline_indent (Suc lvl) @
           join_with ('','' @ newline_indent (Suc lvl)) (map (json_encode (Suc lvl)) xs) @
           newline_indent lvl @ '']'')"
| "json_encode lvl (PDict kvs) =
     (if kvs = [] then ''{}''
      else ''{'' @ newline_indent (Suc lvl) @
           join_with ('','' @ newline_indent (Suc lvl))
             (map (\<lambda>(k, v). json_quote k @ '': '' @ json_encode (Suc lvl) v) kvs) @
           newline_indent lvl @ ''}'')"

definition json_dumps :: "pyval \<Rightarrow> string" where
  "json_dumps v = json_encode 0 v"

subsection \<open>Sequencing operations that may raise\<close>

definition return_io :: "'a \<Rightarrow> 'a io" where
  "return_io x w = (Inr x, w)"

definition raise_io :: "py_error \<Rightarrow> 'a io" where
  "raise_io e w = (Inl e, w)"

definition bind_io :: "'a io \<Rightarrow> ('a \<Rightarrow> 'b io) \<Rightarrow> 'b io" where
  "bind_io m f w = (case m w of (Inl e, w') \<Rightarrow> (Inl e, w') | (Inr x, w') \<Rightarrow> f x w')"

definition lift_io :: "py_error + 'a \<Rightarrow> 'a io" where
  "lift_io r w = (r, w)"

text \<open>
  \<open>OSError e p\<close> is the exception Python raises for the system error \<open>e\<close> at path
  \<open>p\<close> (\<^verbatim>\<open>FileNotFoundError\<close> for \<open>ENOENT\<close>, \<^verbatim>\<open>FileExistsError\<close> for \<open>EEXIST\<close>,
  \<^verbatim>\<open>NotADirectoryError\<close>, \<^verbatim>\<open>IsADirectoryError\<close>); \<open>FileNotFoundError m\<close> is the one the
  source raises itself, with its message.
\<close>

definition os_makedirs :: "string \<Rightarrow> unit io" where
  "os_makedirs name w =
     (case makedirs name (fs w) of
        Inl e \<Rightarrow> (Inl (OSError e name), w)
      | Inr f \<Rightarrow> (Inr (), w\<lparr>fs := f\<rparr>))"

definition io_open_write :: "string \<Rightarrow> unit io" where
  "io_open_write p w =
     (case open_write (fs w) p of
        Inl e \<Rightarrow> (Inl (OSError e p), w)
      | Inr f \<Rightarrow> (Inr (), w\<lparr>fs := f\<rparr>))"

definition io_write :: "string \<Rightarrow> string \<Rightarrow> unit io" where
  "io_write p content w = (Inr (), file_write p content w)"

definition io_now :: "datetime io" where
  "io_now w = (case datetime_now w of (t, w') \<Rightarrow> (Inr t, w'))"

definition io_print :: "string \<Rightarrow> unit io" where
  "io_print s w = (Inr (), py_print s w)"

definition response_json :: "http_response \<Rightarrow> pyval io" where
  "response_json r = (case json r of None \<Rightarrow> raise_io JSONDecodeError | Some v \<Rightarrow> return_io v)"

section \<open>The response model: \<^verbatim>\<open>GenerateAudioResponse\<close>\<close>

text \<open>
  A dataclass stores what it is given: the annotations \<^verbatim>\<open>bool\<close>, \<^verbatim>\<open>str\<close>, \<^verbatim>\<open>int\<close> are
  not checked, so a field holds any value.
\<close>

record GenerateAudioResponse =
  success :: pyval
  message :: pyval
  task_id :: pyval
  conversion_id_1 :: pyval
  conversion_id_2 :: pyval
  eta :: pyval

definition field_names :: "string list" where
  "field_names =
     [''success'', ''message'', ''task_id'', ''conversion_id_1'', ''conversion_id_2'', ''eta'']"

text \<open>
  \<^verbatim>\<open>GenerateAudioResponse(**data)\<close>: \<open>data\<close> must be a mapping; a key that is no
  field is refused first, then a field with no key; otherwise each field is bound to
  the value of its key.
\<close>

definition GenerateAudioResponse_init :: "pyval \<Rightarrow> py_error + GenerateAudioResponse" where
  "GenerateAudioResponse_init data =
     (case data of
        PDict kw \<Rightarrow>
          (case filter (\<lambda>k. k \<notin> set field_names) (map fst kw) of
             k # ks \<Rightarrow> Inl (TypeError (UnexpectedKeyword k))
           | [] \<Rightarrow>
               (case Option.bind (map_of kw ''success'') (\<lambda>a.
                     Option.bind (map_of kw ''message'') (\<lambda>b.
                     Option.bind (map_of kw ''task_id'') (\<lambda>c.
                     Option.bind (map_of kw ''conversion_id_1'') (\<lambda>d.
                     Option.bind (map_of kw ''conversion_id_2'') (\<lambda>e.
                     Option.bind (map_of kw ''eta'') (\<lambda>f.
                       Some \<lparr>success = a, message = b, task_id = c,
                             conversion_id_1 = d, conversion_id_2 = e, eta = f\<rparr>)))))) of
                  Some r \<Rightarrow> Inr r
                | None \<Rightarrow>
                    Inl (TypeError (MissingArguments
                      (filter (\<lambda>f. f \<notin> set (map fst kw)) field_names)))))
      | _ \<Rightarrow> Inl (TypeError NotAMapping))"

text \<open>\<^verbatim>\<open>to_dict\<close>: \<^verbatim>\<open>asdict(self)\<close>, the fields in the order of their declaration.\<close>

definition to_dict :: "GenerateAudioResponse \<Rightarrow> (string \<times> pyval) list" where
  "to_dict self =
     [(''success'', success self), (''message'', message self), (''task_id'', task_id self),
      (''conversion_id_1'', conversion_id_1 self),
      (''conversion_id_2'', conversion_id_2 self), (''eta'', eta self)]"

text \<open>
  \<^verbatim>\<open>to_txt_format\<close>: the template of the source, line by line (\<open>display_text\<close>),
  filled with the time read from the clock. The letters outside ASCII are U+00C9 and
  U+00F3.
\<close>

definition display_text :: "GenerateAudioResponse \<Rightarrow> datetime \<Rightarrow> string" where
  "display_text self t =
     concat (map (\<lambda>l. l @ [CHR 0x0A])
       ['''',
        ''    '',
        ''Respuesta de Lalas API:'',
        ''----------------------'',
        ''Fecha y hora: '' @ strftime_display t,
        [CHR 0xC9] @ ''xito: '' @ py_str (success self),
        ''Mensaje: '' @ py_str (message self),
        ''ID de tarea: '' @ py_str (task_id self),
        ''ID de conversi'' @ [CHR 0xF3] @ ''n 1: '' @ py_str (conversion_id_1 self),
        ''ID de conversi'' @ [CHR 0xF3] @ ''n 2: '' @ py_str (conversion_id_2 self),
        ''Tiempo estimado: '' @ py_str (eta self) @ '' segundos'',
        ''----------------------''])"

definition to_txt_format :: "GenerateAudioResponse \<Rightarrow> string io" where
  "to_txt_format self = bind_io io_now (\<lambda>t. return_io (display_text self t))"

section \<open>The configuration loader: \<^verbatim>\<open>Configuration\<close>\<close>






section \<open>The client: \<^verbatim>\<open>LalasAPI\<close>\<close>

record LalasAPI =
  api_key :: string
  base_url :: string
  headers :: "(string \<times> string) list"

text \<open>
  \<^verbatim>\<open>load_dotenv(env_path)\<close>: the bindings of the file are added to the process
  environment; a variable that is already set keeps its value.
\<close>

definition load_dotenv :: "string \<Rightarrow> world \<Rightarrow> world" where
  "load_dotenv env_path w =
     (case fs w env_path of
        Some (File content) \<Rightarrow>
          w\<lparr>environ := dotenv_values w (environ w) content ++ environ w\<rparr>
      | _ \<Rightarrow> w)"

definition missing_key_message :: string where
  "missing_key_message = ''No se encontr'' @ [CHR 0xF3] @ '' LALAS_API_KEY en el archivo .env''"

definition LalasAPI_init :: "string \<Rightarrow> LalasAPI io" where
  "LalasAPI_init env_path w =
     (let w1 = load_dotenv env_path w
      in case environ w1 ''LALAS_API_KEY'' of
           None \<Rightarrow> (Inl (ValueError missing_key_message), w1)
         | Some key \<Rightarrow>
             if key = [] then (Inl (ValueError missing_key_message), w1)
             else
               (Inr \<lparr>api_key = key,
                     base_url = ''https://api.lalals.com/api/public/v1'',
                     headers = [(''accept'', ''application/json''), (''Authorization'', key)]\<rparr>,
                w1))"

definition read_prompt_from_file :: "LalasAPI \<Rightarrow> string \<Rightarrow> string io" where
  "read_prompt_from_file self file_path w =
     (case open_read (fs w) file_path of
        Inr content \<Rightarrow> (Inr (py_strip content), w)
      | Inl ENOENT \<Rightarrow>
          (Inl (FileNotFoundError (''No se encontr'' @ [CHR 0xF3] @
             '' el archivo de prompt: '' @ file_path)), w)
      | Inl e \<Rightarrow> (Inl (OSError e file_path), w))"

definition save_response ::
  "LalasAPI \<Rightarrow> GenerateAudioResponse \<Rightarrow> string \<Rightarrow> (string \<times> string) io" where
  "save_response self response output_dir =
     bind_io (os_makedirs output_dir) (\<lambda>_.
     bind_io io_now (\<lambda>timestamp.
       let base_filename = ''lalas_response_'' @ strftime_compact timestamp;
           txt_path = os_path_join output_dir (base_filename @ ''.txt'')
       in
       bind_io (io_open_write txt_path) (\<lambda>_.
       bind_io (to_txt_format response) (\<lambda>txt.
       bind_io (io_write txt_path txt) (\<lambda>_.
         let json_path = os_path_join output_dir (base_filename @ ''.json'')
         in
         bind_io (io_open_write json_path) (\<lambda>_.
         bind_io (io_write json_path (json_dumps (PDict (to_dict response)))) (\<lambda>_.
           return_io (txt_path, json_path))))))))"

definition api_error_message :: "http_response \<Rightarrow> string" where
  "api_error_message response =
     ''Error en la API: '' @ str_int (status_code response) @ '' - '' @ resp_text response"

text \<open>The request \<^verbatim>\<open>generate_audio\<close> posts, with its JSON payload.\<close>

definition generation_request ::
  "LalasAPI \<Rightarrow> string \<Rightarrow> string \<Rightarrow> string \<Rightarrow> string \<Rightarrow> string \<Rightarrow> request" where
  "generation_request self prompt music_style webhook_url lyrics voice_id =
     \<lparr>meth = POST, url = base_url self @ ''/MusicAI'',
      req_headers = headers self, params = [],
      json_payload = Some (PDict
        [(''prompt'', PStr prompt),
         (''music_style'', PStr music_style),
         (''webhook_url'', PStr webhook_url),
         (''lyrics'', PStr lyrics),
         (''voice_id'', PStr voice_id)])\<rparr>"

definition generate_audio ::
  "LalasAPI \<Rightarrow> string \<Rightarrow> string \<Rightarrow> string \<Rightarrow> string \<Rightarrow> string \<Rightarrow> bool
     \<Rightarrow> GenerateAudioResponse io" where
  "generate_audio self prompt_file music_style webhook_url lyrics voice_id save_response_files =
     bind_io (read_prompt_from_file self prompt_file) (\<lambda>prompt.
     bind_io (requests_send
                (generation_request self prompt music_style webhook_url lyrics voice_id))
       (\<lambda>response.
         if status_code response \<noteq> 200 then
           raise_io (Exception (api_error_message response))
         else
           bind_io (response_json response) (\<lambda>data.
           bind_io (lift_io (GenerateAudioResponse_init data)) (\<lambda>api_response.
             if save_response_files then
               bind_io (save_response self api_response ''responses'') (\<lambda>(txt_path, json_path).
               bind_io (io_print (''Respuesta guardada en:'' @ [CHR 0x0A] @ ''- TXT: '' @ txt_path
                                  @ [CHR 0x0A] @ ''- JSON: '' @ json_path)) (\<lambda>_.
                 return_io api_response))
             else return_io api_response))))"

text \<open>
  \<^verbatim>\<open>retrieve_audio\<close>: the payload names a fixed task; on a status other than 200
  the source builds an exception value and drops it.
\<close>

definition retrieval_request :: "LalasAPI \<Rightarrow> string \<Rightarrow> request" where
  "retrieval_request self conversion_type =
     \<lparr>meth = GET, url = base_url self @ ''/byId'',
      req_headers = headers self,
      params = [(''task_id'', ''c53d8f7c-ec0d-44ce-bca0-d437d426556c''),
                (''conversionType'', conversion_type)],
      json_payload = None\<rparr>"

definition retrieve_audio :: "LalasAPI \<Rightarrow> string \<Rightarrow> string \<Rightarrow> unit io" where
  "retrieve_audio self task_id_arg conversion_type =
     bind_io (requests_send (retrieval_request self conversion_type)) (\<lambda>response.
       if status_code response = 200 then
         bind_io (response_json response) (\<lambda>body.
           io_print (''Response: '' @ py_str body))
       else return_io ())"

section \<open>Reading JSON back: \<^verbatim>\<open>json.loads\<close>\<close>

text \<open>
  The source only writes JSON. The claim about the file it writes speaks of parsing
  the file, so the decoder of Python's \<^verbatim>\<open>json\<close> module is modelled too: a scanner
  that returns the value and the rest of the input. Numbers with a fraction or an
  exponent and characters beyond U+00FF are outside the model and give \<open>None\<close>.
  Nesting is bounded by fuel; \<open>json_loads\<close> supplies twice the length of the input,
  and two more.
\<close>

definition json_ws :: "char \<Rightarrow> bool" where
  "json_ws c = (c = CHR '' '' \<or> c = CHR 0x09 \<or> c = CHR 0x0A \<or> c = CHR 0x0D)"

definition skip_ws :: "string \<Rightarrow> string" where
  "skip_ws s = dropWhile json_ws s"

definition is_digit :: "char \<Rightarrow> bool" where
  "is_digit c = (48 \<le> (of_char c :: nat) \<and> (of_char c :: nat) \<le> 57)"

definition digit_val :: "char \<Rightarrow> nat" where
  "digit_val c = of_char c - 48"

definition nat_of_digits :: "string \<Rightarrow> nat" where
  "nat_of_digits ds = foldl (\<lambda>a c. 10 * a + digit_val c) 0 ds"

definition hex_val :: "char \<Rightarrow> nat option" where
  "hex_val c =
     (let n = (of_char c :: nat)
      in if 48 \<le> n \<and> n \<le> 57 then Some (n - 48)
         else if 97 \<le> n \<and> n \<le> 102 then Some (n - 87)
         else if 65 \<le> n \<and> n \<le> 70 then Some (n - 55)
         else None)"

definition hex4 :: "char \<Rightarrow> char \<Rightarrow> char \<Rightarrow> char \<Rightarrow> nat option" where
  "hex4 a b c d =
     Option.bind (hex_val a) (\<lambda>w.
     Option.bind (hex_val b) (\<lambda>x.
     Option.bind (hex_val c) (\<lambda>y.
     Option.bind (hex_val d) (\<lambda>z. Some (((w * 16 + x) * 16 + y) * 16 + z)))))"

definition unescape :: "char \<Rightarrow> char option" where
  "unescape e =
     (if e = CHR 0x22 then Some (CHR 0x22)
      else if e = CHR 0x5C then Some (CHR 0x5C)
      else if e = CHR ''/'' then Some (CHR ''/'')
      else if e = CHR ''b'' then Some (CHR 0x08)
      else if e = CHR ''f'' then Some (CHR 0x0C)
      else if e = CHR ''n'' then Some (CHR 0x0A)
      else if e = CHR ''r'' then Some (CHR 0x0D)
      else if e = CHR ''t'' then Some (CHR 0x09)
      else None)"

text \<open>
  \<open>scanstring\<close> reads a string literal after its opening quote: up to the closing
  quote, with the escapes decoded; a control character ends it with an error.
\<close>

fun scanstring :: "string \<Rightarrow> (string \<times> string) option" where
  "scanstring [] = None"
| "scanstring (c # cs) =
     (if c = CHR 0x22 then Some ([], cs)
      else if c = CHR 0x5C then
        (case cs of
           [] \<Rightarrow> None
         | e # es \<Rightarrow>
             if e = CHR ''u'' then
               (case es of
                  h1 # h2 # h3 # h4 # rest \<Rightarrow>
                    (case hex4 h1 h2 h3 h4 of
                       None \<Rightarrow> None
                     | Some n \<Rightarrow>
                         if n < 256 then
                           (case scanstring rest of
                              None \<Rightarrow> None
                            | Some (s, r) \<Rightarrow> Some (char_of n # s, r))
                         else None)
                | _ \<Rightarrow> None)
             else
               (case unescape e of
                  None \<Rightarrow> None
                | Some ch \<Rightarrow>
                    (case scanstring es of
                       None \<Rightarrow> None
                     | Some (s, r) \<Rightarrow> Some (ch # s, r))))
      else if (of_char c :: nat) < 32 then None
      else (case scanstring cs of
              None \<Rightarrow> None
            | Some (s, r) \<Rightarrow> Some (c # s, r)))"

text \<open>
  An integer literal: an optional sign, then \<open>0\<close> or digits that do not start with
  \<open>0\<close>. What may follow it in a number (\<open>.\<close>, \<open>e\<close>, \<open>E\<close>) is not modelled.
\<close>

definition scan_number :: "string \<Rightarrow> (pyval \<times> string) option" where
  "scan_number s =
     (let neg = (take 1 s = ''-'');
          s1 = (if neg then drop 1 s else s)
      in case s1 of
           [] \<Rightarrow> None
         | d # ds \<Rightarrow>
             if \<not> is_digit d then None
             else
               (let digs = (if d = CHR ''0'' then [d] else takeWhile is_digit s1);
                    rest = drop (length digs) s1
                in if take 1 rest = ''.'' \<or> take 1 rest = ''e'' \<or> take 1 rest = ''E'' then None
                   else Some (PInt (if neg then - int (nat_of_digits digs)
                                    else int (nat_of_digits digs)), rest)))"

text \<open>\<^verbatim>\<open>dict(pairs)\<close>: a later pair with the same key replaces the value in place.\<close>

fun dict_update :: "string \<Rightarrow> pyval \<Rightarrow> (string \<times> pyval) list \<Rightarrow> (string \<times> pyval) list" where
  "dict_update k v [] = [(k, v)]"
| "dict_update k v ((k', v') # d) =
     (if k' = k then (k, v) # d else (k', v') # dict_update k v d)"

definition dict_of_pairs :: "(string \<times> pyval) list \<Rightarrow> (string \<times> pyval) list" where
  "dict_of_pairs kvs = foldl (\<lambda>d (k, v). dict_update k v d) [] kvs"

text \<open>
  \<open>scan_once\<close> reads one value; \<open>scan_items\<close> reads the elements of an array, up to
  and with its closing bracket; \<open>scan_pairs\<close> reads the members of an object from the
  quote of a key, up to and with its closing brace.
\<close>

fun scan_once :: "nat \<Rightarrow> string \<Rightarrow> (pyval \<times> string) option"
  and scan_items :: "nat \<Rightarrow> string \<Rightarrow> (pyval list \<times> string) option"
  and scan_pairs :: "nat \<Rightarrow> string \<Rightarrow> ((string \<times> pyval) list \<times> string) option"
where
  "scan_once 0 s = None"
| "scan_once (Suc n) s =
     (if take 1 s = [CHR 0x22] then
        (case scanstring (drop 1 s) of
           None \<Rightarrow> None
         | Some (t, r) \<Rightarrow> Some (PStr t, r))
      else if take 1 s = ''{'' then
        (let s' = skip_ws (drop 1 s)
         in if take 1 s' = ''}'' then Some (PDict [], drop 1 s')
            else (case scan_pairs n s' of
                    None \<Rightarrow> None
                  | Some (kvs, r) \<Rightarrow> Some (PDict (dict_of_pairs kvs), r)))
      else if take 1 s = ''['' then
        (let s' = skip_ws (drop 1 s)
         in if take 1 s' = '']'' then Some (PList [], drop 1 s')
            else (case scan_items n s' of
                    None \<Rightarrow> None
                  | Some (vs, r) \<Rightarrow> Some (PList vs, r)))
      else if take 4 s = ''null'' then Some (PNone, drop 4 s)
      else if take 4 s = ''true'' then Some (PBool True, drop 4 s)
      else if take 5 s = ''false'' then Some (PBool False, drop 5 s)
      else scan_number s)"
| "scan_items 0 s = None"
| "scan_items (Suc n) s =
     (case scan_once n s of
        None \<Rightarrow> None
      | Some (v, r) \<Rightarrow>
          (let r' = skip_ws r
           in if take 1 r' = '']'' then Some ([v], drop 1 r')
              else if take 1 r' = '','' then
                (case scan_items n (skip_ws (drop 1 r')) of
                   None \<Rightarrow> None
                 | Some (vs, r'') \<Rightarrow> Some (v # vs, r''))
              else None))"
| "scan_pairs 0 s = None"
| "scan_pairs (Suc n) s =
     (if take 1 s \<noteq> [CHR 0x22] then None
      else
        (case scanstring (drop 1 s) of
           None \<Rightarrow> None
         | Some (key, r0) \<Rightarrow>
             (let r1 = skip_ws r0
              in if take 1 r1 \<noteq> '':'' then None
                 else
                   (case scan_once n (skip_ws (drop 1 r1)) of
                      None \<Rightarrow> None
                    | Some (v, r2) \<Rightarrow>
                        (let r3 = skip_ws r2
                         in if take 1 r3 = ''}'' then Some ([(key, v)], drop 1 r3)
                            else if take 1 r3 = '','' then
                              (case scan_pairs n (skip_ws (drop 1 r3)) of
                                 None \<Rightarrow> None
                               | Some (kvs, r4) \<Rightarrow> Some ((key, v) # kvs, r4))
                            else None)))))"









section \<open>Concrete worlds\<close>

text \<open>
  A client, a clock and a world with one prompt file, used to run the operations on
  concrete inputs. The server is a parameter.
\<close>

definition demo_client :: LalasAPI where
  "demo_client =
     \<lparr>api_key = ''secret'', base_url = ''https://api.lalals.com/api/public/v1'',
      headers = [(''accept'', ''application/json''), (''Authorization'', ''secret'')]\<rparr>"

definition demo_clock :: "nat \<Rightarrow> datetime" where
  "demo_clock n = \<lparr>year = 2024, month = 5, day = 17, hour = 9, minute = 30, second = 7 + n\<rparr>"

definition demo_world :: "(request \<Rightarrow> reply) \<Rightarrow> world" where
  "demo_world srv =
     \<lparr>environ = Map.empty,
      fs = [''prompt.txt'' \<mapsto> File (''upbeat summer anthem'' @ [CHR 0x0A])],
      clock = demo_clock, reads = 0, server = srv, sent = [], stdout = [],
      dotenv_values = (\<lambda>_ _. Map.empty), yaml_safe_load = (\<lambda>_. None)\<rparr>"

definition ok_reply :: "(string \<times> pyval) list" where
  "ok_reply =
     [(''success'', PBool True), (''message'', PStr ''queued''), (''task_id'', PStr ''T1''),
      (''conversion_id_1'', PStr ''C1''), (''conversion_id_2'', PStr ''C2''),
      (''eta'', PInt 30)]"

definition not_found :: "request \<Rightarrow> reply" where
  "not_found rq = Response \<lparr>status_code = 404, resp_text = ''not found'', json = None\<rparr>"

definition extra_reply :: "(string \<times> pyval) list" where
  "extra_reply = ok_reply @ [(''queue_position'', PInt 4)]"

definition ok_server :: "(string \<times> pyval) list \<Rightarrow> request \<Rightarrow> reply" where
  "ok_server kw rq = Response \<lparr>status_code = 200, resp_text = ''{...}'', json = Some (PDict kw)\<rparr>"

text \<open>
  Two worlds for the credentials. In \<open>preset_world\<close> the process environment already
  holds an empty \<^verbatim>\<open>LALAS_API_KEY\<close> and the file \<^verbatim>\<open>.env\<close> binds it to \<open>abc\<close>; in
  \<open>env_only_world\<close> there is no file and the process environment holds the key.
\<close>

definition preset_world :: world where
  "preset_world =
     \<lparr>environ = [''LALAS_API_KEY'' \<mapsto> ''''],
      fs = [''.env'' \<mapsto> File ''LALAS_API_KEY=abc''],
      clock = demo_clock, reads = 0, server = not_found, sent = [], stdout = [],
      dotenv_values = (\<lambda>env content.
        if content = ''LALAS_API_KEY=abc'' then [''LALAS_API_KEY'' \<mapsto> ''abc''] else Map.empty),
      yaml_safe_load = (\<lambda>_. None)\<rparr>"

definition env_only_world :: world where
  "env_only_world =
     \<lparr>environ = [''LALAS_API_KEY'' \<mapsto> ''from-env''],
      fs = Map.empty,
      clock = demo_clock, reads = 0, server = not_found, sent = [], stdout = [],
      dotenv_values = (\<lambda>_ _. Map.empty), yaml_safe_load = (\<lambda>_. None)\<rparr>"

text \<open>
  The key the client ends up with, in the words of the amended claim C8: the value of
  \<^verbatim>\<open>LALAS_API_KEY\<close> in the process environment when it is set there, otherwise the
  value the credentials file binds it to.
\<close>

definition credentials_key :: "string \<Rightarrow> world \<Rightarrow> string option" where
  "credentials_key env_path w =
     (case environ w ''LALAS_API_KEY'' of
        Some v \<Rightarrow> Some v
      | None \<Rightarrow>
          (case fs w env_path of
             Some (File content) \<Rightarrow> dotenv_values w (environ w) content ''LALAS_API_KEY''
           | _ \<Rightarrow> None))"



section \<open>Writing JSON and reading it back\<close>



































section \<open>Directories and paths\<close>

















section \<open>The retrieval request\<close>

text \<open>
  Claim C1 says that the GET request of the retrieval operation carries the caller's
  task identifier as \<open>task_id\<close>. The source takes the argument and never reads it: for
  every argument the request carries the identifier written in the source. With the
  argument \<open>T1\<close> the query parameters are the fixed identifier and the conversion
  type; \<open>T1\<close> is not sent.
\<close>

theorem retrieve_audio_sends_fixed_task_id:
  "map params (sent (snd (retrieve_audio demo_client ''T1'' ''MUSIC_AI'' (demo_world not_found)))) =
     [[(''task_id'', ''c53d8f7c-ec0d-44ce-bca0-d437d426556c''),
       (''conversionType'', ''MUSIC_AI'')]]"
  by (simp add: retrieve_audio_def bind_io_def requests_send_def retrieval_request_def Let_def
      return_io_def demo_world_def not_found_def)

lemma retrieve_audio_request:
  "sent (snd (retrieve_audio self t c w)) = sent w @ [retrieval_request self c]"
  by (simp add: retrieve_audio_def bind_io_def requests_send_def Let_def
      response_json_def raise_io_def return_io_def io_print_def py_print_def
      split: reply.splits option.splits)

text \<open>
  Claim C4 says that on a status other than 200 the retrieval operation reports the
  failure and does not raise. On a 404 reply the source returns normally and prints
  nothing: the world it leaves differs from the one it found by the request sent only.
\<close>

theorem retrieve_audio_404_silent:
  "retrieve_audio demo_client ''T1'' ''MUSIC_AI'' (demo_world not_found) =
     (Inr (), (demo_world not_found)\<lparr>sent := [retrieval_request demo_client ''MUSIC_AI'']\<rparr>)
   \<and> stdout (snd (retrieve_audio demo_client ''T1'' ''MUSIC_AI'' (demo_world not_found))) = []"
  by (simp add: retrieve_audio_def bind_io_def requests_send_def Let_def
      return_io_def demo_world_def not_found_def)

lemma retrieve_audio_non_200:
  assumes "server w (retrieval_request self c) = Response r" and "status_code r \<noteq> 200"
  shows "retrieve_audio self t c w = (Inr (), w\<lparr>sent := sent w @ [retrieval_request self c]\<rparr>)"
  using assms
  by (simp add: retrieve_audio_def bind_io_def requests_send_def Let_def return_io_def)

section \<open>Constructing the response model\<close>

lemma init_six_fields:
  "GenerateAudioResponse_init
     (PDict [(''success'', a), (''message'', b), (''task_id'', c),
             (''conversion_id_1'', d), (''conversion_id_2'', e), (''eta'', f)]) =
   Inr \<lparr>success = a, message = b, task_id = c,
        conversion_id_1 = d, conversion_id_2 = e, eta = f\<rparr>"
  by (simp add: GenerateAudioResponse_init_def field_names_def)

lemma init_missing_field:
  assumes "f \<in> set field_names" and "f \<notin> set (map fst kw)"
  shows "\<exists>e. GenerateAudioResponse_init (PDict kw) = Inl (TypeError e)"
proof (cases "filter (\<lambda>k. k \<notin> set field_names) (map fst kw)")
  case (Cons k ks)
  then show ?thesis by (simp add: GenerateAudioResponse_init_def)
next
  case Nil
  have none: "map_of kw f = None"
    using assms(2) by (simp add: map_of_eq_None_iff)
  have "GenerateAudioResponse_init (PDict kw) =
          Inl (TypeError (MissingArguments (filter (\<lambda>f. f \<notin> set (map fst kw)) field_names)))"
    using assms(1) none Nil
    by (auto simp: GenerateAudioResponse_init_def field_names_def Option.bind_eq_None_conv
        split: option.splits)
  then show ?thesis by blast
qed

text \<open>
  Claim C2 says that construction fails when a key is missing or a value has the wrong
  type. A missing key does make it fail (\<open>init_missing_field\<close>), but the dataclass
  checks no type: a mapping with the six keys whose values all have the wrong type is
  accepted, and the fields hold those values.
\<close>

theorem init_accepts_wrong_types:
  "GenerateAudioResponse_init
     (PDict [(''success'', PStr ''yes''), (''message'', PInt 7), (''task_id'', PNone),
             (''conversion_id_1'', PBool True), (''conversion_id_2'', PList []),
             (''eta'', PStr ''soon'')]) =
   Inr \<lparr>success = PStr ''yes'', message = PInt 7, task_id = PNone,
        conversion_id_1 = PBool True, conversion_id_2 = PList [], eta = PStr ''soon''\<rparr>"
  by (simp add: GenerateAudioResponse_init_def field_names_def)

section \<open>Submitting a generation job\<close>



text \<open>
  Claim C3: when the submission endpoint answers with a status other than 200,
  \<^verbatim>\<open>generate_audio\<close> raises the exception whose message holds the status code and
  the body as received. The world it leaves differs from the one it found by the
  request sent only: no file is written, nothing is printed, and no response model is
  returned.
\<close>

theorem generate_audio_non_200:
  assumes "open_read (fs w) prompt_file = Inr content"
    and "server w (generation_request self (py_strip content) music_style webhook_url lyrics voice_id)
           = Response r"
    and "status_code r \<noteq> 200"
  shows "generate_audio self prompt_file music_style webhook_url lyrics voice_id save_files w =
           (Inl (Exception (''Error en la API: '' @ str_int (status_code r) @ '' - '' @ resp_text r)),
            w\<lparr>sent := sent w @
                 [generation_request self (py_strip content) music_style webhook_url lyrics voice_id]\<rparr>)"
  using assms
  by (simp add: generate_audio_def bind_io_def read_prompt_from_file_def requests_send_def
      Let_def raise_io_def api_error_message_def)

lemma str_int_404: "str_int 404 = ''404''"
  by code_simp

theorem generate_audio_non_200_witness:
  "open_read (fs (demo_world not_found)) ''prompt.txt'' = Inr (''upbeat summer anthem'' @ [CHR 0x0A]) \<and>
   server (demo_world not_found)
     (generation_request demo_client ''upbeat summer anthem'' ''pop'' ''http://api.lalals.com'' '''' ''Drake'')
     = Response \<lparr>status_code = 404, resp_text = ''not found'', json = None\<rparr> \<and>
   generate_audio demo_client ''prompt.txt'' ''pop'' ''http://api.lalals.com'' '''' ''Drake'' True
       (demo_world not_found) =
     (Inl (Exception ''Error en la API: 404 - not found''),
      (demo_world not_found)\<lparr>sent :=
         [generation_request demo_client ''upbeat summer anthem'' ''pop'' ''http://api.lalals.com'' '''' ''Drake'']\<rparr>)"
proof -
  have strip: "py_strip (''upbeat summer anthem'' @ [CHR 0x0A]) = ''upbeat summer anthem''"
    by (simp add: py_strip_def is_space_def)
  have h1: "open_read (fs (demo_world not_found)) ''prompt.txt'' = Inr (''upbeat summer anthem'' @ [CHR 0x0A])"
    by (simp add: open_read_def demo_world_def)
  have h2: "server (demo_world not_found)
     (generation_request demo_client (py_strip (''upbeat summer anthem'' @ [CHR 0x0A])) ''pop'' ''http://api.lalals.com'' '''' ''Drake'')
     = Response \<lparr>status_code = 404, resp_text = ''not found'', json = None\<rparr>"
    by (simp add: demo_world_def not_found_def)
  have h3: "status_code \<lparr>status_code = 404, resp_text = ''not found'', json = None\<rparr> \<noteq> 200"
    by simp
  show ?thesis
    using generate_audio_non_200 [OF h1 h2 h3, of True] h1 h2 strip str_int_404
    by (simp add: demo_world_def not_found_def)
qed

section \<open>The structured form of the response model\<close>

lemma map_of_in_keys: "k \<in> set (map fst kw) \<Longrightarrow> \<exists>v. map_of kw k = Some v"
  by (cases "map_of kw k") (auto simp: map_of_eq_None_iff)

text \<open>
  Claim C6: a mapping whose keys are exactly the six field names is accepted, and
  \<^verbatim>\<open>to_dict\<close> of the instance built from it is the same mapping: every key has the
  value it had, untouched. The values need not even have the declared types.
\<close>

theorem init_to_dict_round_trip:
  assumes "set (map fst kw) = set field_names"
  shows "\<exists>r. GenerateAudioResponse_init (PDict kw) = Inr r \<and> map_of (to_dict r) = map_of kw"
proof -
  have nounexp: "filter (\<lambda>k. k \<notin> set field_names) (map fst kw) = []"
    using assms by (simp add: filter_empty_conv)
  obtain a where a: "map_of kw ''success'' = Some a"
    using map_of_in_keys [of "''success''" kw] assms by (auto simp: field_names_def)
  obtain b where b: "map_of kw ''message'' = Some b"
    using map_of_in_keys [of "''message''" kw] assms by (auto simp: field_names_def)
  obtain c where c: "map_of kw ''task_id'' = Some c"
    using map_of_in_keys [of "''task_id''" kw] assms by (auto simp: field_names_def)
  obtain d where d: "map_of kw ''conversion_id_1'' = Some d"
    using map_of_in_keys [of "''conversion_id_1''" kw] assms by (auto simp: field_names_def)
  obtain e where e: "map_of kw ''conversion_id_2'' = Some e"
    using map_of_in_keys [of "''conversion_id_2''" kw] assms by (auto simp: field_names_def)
  obtain f where f: "map_of kw ''eta'' = Some f"
    using map_of_in_keys [of "''eta''" kw] assms by (auto simp: field_names_def)
  let ?r = "\<lparr>success = a, message = b, task_id = c,
             conversion_id_1 = d, conversion_id_2 = e, eta = f\<rparr>"
  have init: "GenerateAudioResponse_init (PDict kw) = Inr ?r"
    by (simp add: GenerateAudioResponse_init_def nounexp a b c d e f)
  have "map_of (to_dict ?r) k = map_of kw k" for k
  proof (cases "k \<in> set field_names")
    case True
    then show ?thesis
      using a b c d e f by (auto simp: field_names_def to_dict_def)
  next
    case False
    then have "map_of kw k = None"
      using assms by (simp add: map_of_eq_None_iff)
    with False show ?thesis
      by (simp add: field_names_def to_dict_def)
  qed
  then have "map_of (to_dict ?r) = map_of kw" by (rule ext)
  with init show ?thesis by blast
qed

theorem init_to_dict_round_trip_witness:
  "set (map fst ok_reply) = set field_names \<and>
   (\<exists>r. GenerateAudioResponse_init (PDict ok_reply) = Inr r \<and> map_of (to_dict r) = map_of ok_reply)"
proof -
  have h: "set (map fst ok_reply) = set field_names"
    by (simp add: ok_reply_def field_names_def)
  show ?thesis using h init_to_dict_round_trip [OF h] by simp
qed

section \<open>Replies with more keys than the schema\<close>

text \<open>
  Claim C10: a 200 reply whose decoded mapping has a key that is no field of the
  response model is refused. Construction fails with the \<^verbatim>\<open>TypeError\<close> of an
  unexpected keyword, and \<^verbatim>\<open>generate_audio\<close> raises it after the request, with no
  file written. A reply with the six well-typed keys and one more is such a reply.
\<close>

theorem generate_audio_rejects_extra_keys:
  assumes "open_read (fs w) prompt_file = Inr content"
    and "server w (generation_request self (py_strip content) music_style webhook_url lyrics voice_id)
           = Response r"
    and "status_code r = 200"
    and "json r = Some (PDict kw)"
    and "k \<in> set (map fst kw)"
    and "k \<notin> set field_names"
  shows "\<exists>k'. k' \<in> set (map fst kw) \<and> k' \<notin> set field_names \<and>
           GenerateAudioResponse_init (PDict kw) = Inl (TypeError (UnexpectedKeyword k')) \<and>
           generate_audio self prompt_file music_style webhook_url lyrics voice_id save_files w =
             (Inl (TypeError (UnexpectedKeyword k')),
              w\<lparr>sent := sent w @
                 [generation_request self (py_strip content) music_style webhook_url lyrics voice_id]\<rparr>)"
proof -
  have "k \<in> set (filter (\<lambda>k. k \<notin> set field_names) (map fst kw))"
    using assms(5,6) by simp
  then obtain k' ks where f: "filter (\<lambda>k. k \<notin> set field_names) (map fst kw) = k' # ks"
    by (cases "filter (\<lambda>k. k \<notin> set field_names) (map fst kw)") auto
  then have "k' \<in> set (filter (\<lambda>k. k \<notin> set field_names) (map fst kw))"
    by simp
  then have k': "k' \<in> set (map fst kw)" "k' \<notin> set field_names"
    by auto
  have init: "GenerateAudioResponse_init (PDict kw) = Inl (TypeError (UnexpectedKeyword k'))"
    by (simp add: GenerateAudioResponse_init_def f)
  have "generate_audio self prompt_file music_style webhook_url lyrics voice_id save_files w =
             (Inl (TypeError (UnexpectedKeyword k')),
              w\<lparr>sent := sent w @
                 [generation_request self (py_strip content) music_style webhook_url lyrics voice_id]\<rparr>)"
    using assms(1-4) init
    by (simp add: generate_audio_def bind_io_def read_prompt_from_file_def requests_send_def
        Let_def response_json_def return_io_def lift_io_def)
  with k' init show ?thesis by blast
qed

theorem generate_audio_rejects_extra_keys_witness:
  "map fst extra_reply = field_names @ [''queue_position''] \<and>
   GenerateAudioResponse_init (PDict extra_reply) = Inl (TypeError (UnexpectedKeyword ''queue_position'')) \<and>
   generate_audio demo_client ''prompt.txt'' ''pop'' ''http://api.lalals.com'' '''' ''Drake'' True
       (demo_world (ok_server extra_reply)) =
     (Inl (TypeError (UnexpectedKeyword ''queue_position'')),
      (demo_world (ok_server extra_reply))\<lparr>sent :=
         [generation_request demo_client ''upbeat summer anthem'' ''pop''
            ''http://api.lalals.com'' '''' ''Drake'']\<rparr>)"
proof -
  let ?w = "demo_world (ok_server extra_reply)"
  let ?r = "\<lparr>status_code = 200, resp_text = ''{...}'', json = Some (PDict extra_reply)\<rparr>"
  have strip: "py_strip (''upbeat summer anthem'' @ [CHR 0x0A]) = ''upbeat summer anthem''"
    by (simp add: py_strip_def is_space_def)
  have h1: "open_read (fs ?w) ''prompt.txt'' = Inr (''upbeat summer anthem'' @ [CHR 0x0A])"
    by (simp add: open_read_def demo_world_def)
  have h2: "server ?w (generation_request demo_client
              (py_strip (''upbeat summer anthem'' @ [CHR 0x0A])) ''pop''
              ''http://api.lalals.com'' '''' ''Drake'') = Response ?r"
    by (simp add: demo_world_def ok_server_def)
  have h3: "status_code ?r = 200" by simp
  have h4: "json ?r = Some (PDict extra_reply)" by simp
  have h5: "''queue_position'' \<in> set (map fst extra_reply)"
    by (simp add: extra_reply_def ok_reply_def)
  have h6: "''queue_position'' \<notin> set field_names"
    by (simp add: field_names_def)
  have sup: "map fst extra_reply = field_names @ [''queue_position'']"
    by (simp add: extra_reply_def ok_reply_def field_names_def)
  have init: "GenerateAudioResponse_init (PDict extra_reply) =
                Inl (TypeError (UnexpectedKeyword ''queue_position''))"
    by (simp add: GenerateAudioResponse_init_def extra_reply_def ok_reply_def field_names_def)
  show ?thesis
    using generate_audio_rejects_extra_keys [OF h1 h2 h3 h4 h5 h6, of True] init strip
    unfolding sup by (simp add: demo_world_def)
qed

section \<open>Credentials\<close>

text \<open>
  Claim C8 says that construction succeeds for every non-empty key of the credentials
  file and fails for an empty or missing one. It fails in \<open>preset_world\<close>, where the
  file binds the key to \<open>abc\<close> and the process environment holds an empty value, and
  it succeeds in \<open>env_only_world\<close>, where no file binds the key.
\<close>

theorem LalasAPI_init_file_key_counterexample:
  "fs preset_world ''.env'' = Some (File ''LALAS_API_KEY=abc'') \<and>
   dotenv_values preset_world (environ preset_world) ''LALAS_API_KEY=abc'' ''LALAS_API_KEY''
     = Some ''abc'' \<and>
   fst (LalasAPI_init ''.env'' preset_world) = Inl (ValueError missing_key_message) \<and>
   fs env_only_world ''.env'' = None \<and>
   fst (LalasAPI_init ''.env'' env_only_world) =
     Inr \<lparr>api_key = ''from-env'', base_url = ''https://api.lalals.com/api/public/v1'',
          headers = [(''accept'', ''application/json''), (''Authorization'', ''from-env'')]\<rparr>"
  by (simp add: preset_world_def env_only_world_def LalasAPI_init_def load_dotenv_def Let_def)

text \<open>
  Claim C8 as amended: the key is the value of \<^verbatim>\<open>LALAS_API_KEY\<close> in the process
  environment when it is set there, otherwise the value the credentials file binds
  it to (\<open>credentials_key\<close>). Construction succeeds exactly when that key is not
  empty, and then the client holds the key, the fixed base URL and the two headers;
  when the key is empty or missing, construction raises the \<^verbatim>\<open>ValueError\<close>.
\<close>

theorem LalasAPI_init_credentials_key:
  "fst (LalasAPI_init env_path w) =
     (case credentials_key env_path w of
        None \<Rightarrow> Inl (ValueError missing_key_message)
      | Some key \<Rightarrow>
          if key = [] then Inl (ValueError missing_key_message)
          else Inr \<lparr>api_key = key, base_url = ''https://api.lalals.com/api/public/v1'',
                    headers = [(''accept'', ''application/json''), (''Authorization'', key)]\<rparr>)"
  by (auto simp: LalasAPI_init_def load_dotenv_def credentials_key_def Let_def map_add_def
      split: option.splits node.splits)

section \<open>Configuration\<close>




section \<open>Persisting the response\<close>




end
